theory Spec2Isabelle
  imports Main "HOL-Library.Sublist" "HOL-Library.AList"
begin

section \<open>Python primitives used by the flow-table decoder\<close>

text \<open>
  Exceptions are values. \<open>SkipException\<close> carries its message; \<open>ValueError\<close> is what
  the builtins \<open>int\<close> and \<open>float\<close> raise on a string that is no number.
\<close>

datatype error = SkipException string | ValueError

text \<open>
  What a decoded field holds: the original string, an \<open>int\<close>, or a \<open>float\<close>. The
  floating-point value itself is not modelled: \<open>'f\<close> stands for Python's float type.
\<close>

datatype 'f dvalue = VStr string | VInt int | VFloat 'f

text \<open>\<open>x.replace(c, '')\<close> for a single character \<open>c\<close>: every occurrence is removed.\<close>

definition remove_char :: "char \<Rightarrow> string \<Rightarrow> string" where
  "remove_char c s = filter (\<lambda>x. x \<noteq> c) s"

text \<open>
  \<open>s.split(sep)\<close> for a non-empty separator: scan from the left, cut at every
  occurrence of \<open>sep\<close> and go on behind it. \<open>acc\<close> holds the current piece, reversed.
  (Python raises on an empty separator; the decoder only splits on constants.)
\<close>

function split_from :: "string \<Rightarrow> string \<Rightarrow> string \<Rightarrow> string list" where
  "split_from sep acc s =
     (if s = [] then [rev acc]
      else if sep \<noteq> [] \<and> prefix sep s
        then rev acc # split_from sep [] (drop (length sep) s)
      else split_from sep (hd s # acc) (tl s))"
  by pat_completeness auto
termination
  by (relation "measure (\<lambda>(sep, acc, s). length s)") auto

declare split_from.simps [simp del]

definition py_split :: "string \<Rightarrow> string \<Rightarrow> string list" where
  "py_split sep s = split_from sep [] s"

section \<open>The flow-table decoder \<open>OVSofctlDumpFlows\<close>\<close>

text \<open>
  The builtins \<open>int\<close> and \<open>float\<close> are not code of the repository, and the strings
  they accept differ between interpreter versions. They are parameters of the decoder:
  \<open>py_int\<close> and \<open>py_float\<close> give the number for a string, or \<open>None\<close> where the
  builtin raises \<open>ValueError\<close>, the one exception either raises on a string.
  \<open>split_kv_pairs\<close>, a helper of the package that lives outside this module, is a
  parameter as well; its result (a dictionary) is the list of its items.
\<close>

text \<open>
  \<open>_decode_port\<close>: \<open>try: return int(port)\<close>, and under \<open>except ValueError\<close> the
  string without its double quotes.
\<close>

definition decode_port :: "(string \<Rightarrow> int option) \<Rightarrow> string \<Rightarrow> error + 'f dvalue" where
  "decode_port py_int port =
     (case py_int port of
        Some n \<Rightarrow> Inr (VInt n)
      | None \<Rightarrow> Inr (VStr (remove_char (CHR 0x22) port)))"

text \<open>The decoder \<open>int\<close> as it stands in the dictionary: the builtin, result wrapped.\<close>

definition int_decoder :: "(string \<Rightarrow> int option) \<Rightarrow> string \<Rightarrow> error + 'f dvalue" where
  "int_decoder py_int x = (case py_int x of None \<Rightarrow> Inl ValueError | Some n \<Rightarrow> Inr (VInt n))"

text \<open>\<open>lambda x: float(x.replace('s', ''))\<close>.\<close>

definition duration_decoder :: "(string \<Rightarrow> 'f option) \<Rightarrow> string \<Rightarrow> error + 'f dvalue" where
  "duration_decoder py_float x =
     (case py_float (remove_char CHR ''s'' x) of
        None \<Rightarrow> Inl ValueError | Some f \<Rightarrow> Inr (VFloat f))"

text \<open>\<open>self._field_decoders\<close>, the dictionary built in \<open>__init__\<close>, in the order written.\<close>

definition field_decoders ::
  "(string \<Rightarrow> int option) \<Rightarrow> (string \<Rightarrow> 'f option) \<Rightarrow>
   (string \<times> (string \<Rightarrow> error + 'f dvalue)) list" where
  "field_decoders py_int py_float =
     [(''duration'', duration_decoder py_float),
      (''table'', int_decoder py_int),
      (''idle_age'', int_decoder py_int),
      (''importance'', int_decoder py_int),
      (''hard_age'', int_decoder py_int),
      (''priority'', int_decoder py_int),
      (''in_port'', decode_port py_int),
      (''n_bytes'', int_decoder py_int),
      (''n_packets'', int_decoder py_int)]"

text \<open>
  \<open>_decode_field\<close>: a name outside the dictionary keeps its pair, a name inside it has
  its decoder applied to the value; an exception of the decoder goes through.
\<close>

definition decode_field ::
  "(string \<Rightarrow> int option) \<Rightarrow> (string \<Rightarrow> 'f option) \<Rightarrow> string \<times> string \<Rightarrow>
   error + (string \<times> 'f dvalue)" where
  "decode_field py_int py_float elem =
     (case map_of (field_decoders py_int py_float) (fst elem) of
        None \<Rightarrow> Inr (fst elem, VStr (snd elem))
      | Some d \<Rightarrow> (case d (snd elem) of Inl e \<Rightarrow> Inl e | Inr v \<Rightarrow> Inr (fst elem, v)))"

text \<open>\<open>_is_header\<close>: \<open>'NXST_FLOW' in line\<close>.\<close>

definition is_header :: "string \<Rightarrow> bool" where
  "is_header line = sublist ''NXST_FLOW'' line"

text \<open>
  \<open>map(self._decode_field, items)\<close> consumed by \<open>dict\<close>: the items are decoded from left
  to right and the first exception ends the run; \<open>dict\<close> then stores the pairs in order,
  a later pair replacing the value of an equal earlier key.
\<close>

fun decode_all ::
  "(string \<Rightarrow> int option) \<Rightarrow> (string \<Rightarrow> 'f option) \<Rightarrow> (string \<times> string) list \<Rightarrow>
   error + (string \<times> 'f dvalue) list" where
  "decode_all py_int py_float [] = Inr []"
| "decode_all py_int py_float (e # es) =
     (case decode_field py_int py_float e of
        Inl err \<Rightarrow> Inl err
      | Inr kv \<Rightarrow> (case decode_all py_int py_float es of
                     Inl err \<Rightarrow> Inl err
                   | Inr kvs \<Rightarrow> Inr (kv # kvs)))"

definition py_dict :: "('k \<times> 'v) list \<Rightarrow> ('k \<times> 'v) list" where
  "py_dict kvs = foldl (\<lambda>d kv. AList.update (fst kv) (snd kv) d) [] kvs"

type_synonym 'f flow = "(string \<times> 'f dvalue) list"

text \<open>
  One flow record from the two parts of a line: the decoded fields, then
  \<open>flow['actions'] = line_parts[1]\<close>.
\<close>

definition make_flow :: "(string \<times> 'f dvalue) list \<Rightarrow> string \<Rightarrow> 'f flow" where
  "make_flow kvs actions = AList.update ''actions'' (VStr actions) (py_dict kvs)"

text \<open>
  The \<open>for line in content\<close> loop of \<open>parse_content\<close>, with \<open>self._bridges\<close> as the
  accumulator.
\<close>

fun parse_lines ::
  "(string list \<Rightarrow> (string \<times> string) list) \<Rightarrow> (string \<Rightarrow> int option) \<Rightarrow>
   (string \<Rightarrow> 'f option) \<Rightarrow> string list \<Rightarrow> 'f flow list \<Rightarrow> error + 'f flow list" where
  "parse_lines split_kv_pairs py_int py_float [] bridges = Inr bridges"
| "parse_lines split_kv_pairs py_int py_float (line # rest) bridges =
     (if is_header line then parse_lines split_kv_pairs py_int py_float rest bridges
      else
        let line_parts = py_split ''actions='' line in
        if length line_parts \<noteq> 2 then Inl (SkipException ''Invalid Content!'')
        else
          let flow_list = split_kv_pairs (py_split '','' (line_parts ! 0)) in
          if flow_list \<noteq> [] then
            (case decode_all py_int py_float flow_list of
               Inl e \<Rightarrow> Inl e
             | Inr kvs \<Rightarrow>
                 parse_lines split_kv_pairs py_int py_float rest
                   (bridges @ [make_flow kvs (line_parts ! 1)]))
          else parse_lines split_kv_pairs py_int py_float rest bridges)"

text \<open>
  \<open>self.file_path.split("ovs-ofctl_dump-flows_")[1]\<close> under \<open>try\<close> with a bare
  \<open>except\<close>: no path at all, or a path without the marker, gives \<open>None\<close> here.
\<close>

definition extract_bridge_name :: "string option \<Rightarrow> string option" where
  "extract_bridge_name file_path =
     (case file_path of
        None \<Rightarrow> None
      | Some p \<Rightarrow>
          (let parts = py_split ''ovs-ofctl_dump-flows_'' p
           in if 1 < length parts then Some (parts ! 1) else None))"

record 'f ovs_state =
  bridge_name :: string
  flow_dumps :: "'f flow list"

definition parse_content ::
  "(string list \<Rightarrow> (string \<times> string) list) \<Rightarrow> (string \<Rightarrow> int option) \<Rightarrow>
   (string \<Rightarrow> 'f option) \<Rightarrow> string option \<Rightarrow> string list \<Rightarrow> error + 'f ovs_state" where
  "parse_content split_kv_pairs py_int py_float file_path content =
     (if content = [] then Inl (SkipException ''Empty Content!'')
      else
        case extract_bridge_name file_path of
          None \<Rightarrow> Inl (SkipException ''Invalid Path!'')
        | Some b \<Rightarrow>
            (case parse_lines split_kv_pairs py_int py_float content [] of
               Inl e \<Rightarrow> Inl e
             | Inr bridges \<Rightarrow>
                 if bridges = [] then Inl (SkipException ''Invalid Content!'')
                 else Inr \<lparr>bridge_name = b, flow_dumps = bridges\<rparr>))"

text \<open>
  The conditions of the decoder's contract in words, for comparison with
  \<open>parse_content\<close>. The file path names a bridge when the marker occurs in it. A line
  is well formed when it is a header or splits on \<open>actions=\<close> into exactly two parts.
  \<open>line_fields\<close> are the key-value pairs found in front of the actions. The loop gets
  past a line (\<open>line_passes\<close>) when the line is a header, or has two parts and every
  field coercion of it succeeds; \<open>first_stop\<close> is the remainder of the content from the
  first line the loop does not get past. \<open>flows_of\<close> are the records of the lines.
\<close>

definition path_has_marker :: "string option \<Rightarrow> bool" where
  "path_has_marker file_path =
     (case file_path of None \<Rightarrow> False | Some p \<Rightarrow> sublist ''ovs-ofctl_dump-flows_'' p)"

definition well_formed :: "string \<Rightarrow> bool" where
  "well_formed line = (is_header line \<or> length (py_split ''actions='' line) = 2)"

definition line_fields ::
  "(string list \<Rightarrow> (string \<times> string) list) \<Rightarrow> string \<Rightarrow> (string \<times> string) list" where
  "line_fields split_kv_pairs line =
     split_kv_pairs (py_split '','' (py_split ''actions='' line ! 0))"

definition line_passes ::
  "(string list \<Rightarrow> (string \<times> string) list) \<Rightarrow> (string \<Rightarrow> int option) \<Rightarrow>
   (string \<Rightarrow> 'f option) \<Rightarrow> string \<Rightarrow> bool" where
  "line_passes split_kv_pairs py_int py_float line =
     (is_header line \<or>
      (length (py_split ''actions='' line) = 2 \<and>
       (case decode_all py_int py_float (line_fields split_kv_pairs line) of
          Inl e \<Rightarrow> False | Inr kvs \<Rightarrow> True)))"

definition first_stop ::
  "(string list \<Rightarrow> (string \<times> string) list) \<Rightarrow> (string \<Rightarrow> int option) \<Rightarrow>
   (string \<Rightarrow> 'f option) \<Rightarrow> string list \<Rightarrow> string list" where
  "first_stop split_kv_pairs py_int py_float content =
     dropWhile (line_passes split_kv_pairs py_int py_float) content"

definition line_flow ::
  "(string list \<Rightarrow> (string \<times> string) list) \<Rightarrow> (string \<Rightarrow> int option) \<Rightarrow>
   (string \<Rightarrow> 'f option) \<Rightarrow> string \<Rightarrow> 'f flow list" where
  "line_flow split_kv_pairs py_int py_float line =
     (if is_header line \<or> line_fields split_kv_pairs line = [] then []
      else case decode_all py_int py_float (line_fields split_kv_pairs line) of
             Inl e \<Rightarrow> []
           | Inr kvs \<Rightarrow> [make_flow kvs (py_split ''actions='' line ! 1)])"

definition flows_of ::
  "(string list \<Rightarrow> (string \<times> string) list) \<Rightarrow> (string \<Rightarrow> int option) \<Rightarrow>
   (string \<Rightarrow> 'f option) \<Rightarrow> string list \<Rightarrow> 'f flow list" where
  "flows_of split_kv_pairs py_int py_float content =
     concat (map (line_flow split_kv_pairs py_int py_float) content)"

subsection \<open>Instances of the parameters\<close>

text \<open>
  For evaluating the decoder on concrete lines the three parameters need values. A
  character of a \<open>string\<close> is read as a code point below 256.

  \<open>strip\<close> is \<open>str.strip()\<close>, whose whitespace below 256 is 0x09-0x0D, 0x1C-0x20, 0x85
  and 0xA0.

  \<open>kv_pairs_eq\<close> stands for \<open>split_kv_pairs(lines, split_on='=')\<close>: of every item the
  part behind a \<open>#\<close> is dropped and the rest stripped, empty items and items without
  \<open>=\<close> are left out, and the others are cut at their first \<open>=\<close> into a stripped key
  and a stripped value.
\<close>

definition is_space :: "char \<Rightarrow> bool" where
  "is_space c = (c \<in> set [CHR 0x09, CHR 0x0A, CHR 0x0B, CHR 0x0C, CHR 0x0D,
                              CHR 0x1C, CHR 0x1D, CHR 0x1E, CHR 0x1F, CHR 0x20,
                              CHR 0x85, CHR 0xA0])"

definition strip :: "string \<Rightarrow> string" where
  "strip s = rev (dropWhile is_space (rev (dropWhile is_space s)))"

definition kv_of_item :: "string \<Rightarrow> (string \<times> string) list" where
  "kv_of_item item =
     (let l = strip (takeWhile (\<lambda>c. c \<noteq> CHR ''#'') item)
      in if CHR ''='' \<in> set l
         then [(strip (takeWhile (\<lambda>c. c \<noteq> CHR ''='') l),
                strip (tl (dropWhile (\<lambda>c. c \<noteq> CHR ''='') l)))]
         else [])"

definition kv_pairs_eq :: "string list \<Rightarrow> (string \<times> string) list" where
  "kv_pairs_eq items = py_dict (concat (map kv_of_item items))"

text \<open>
  \<open>py3_int\<close> stands for \<open>int(s)\<close> in base 10 as Python 3.6 to 3.10 computes it (later
  versions refuse numbers of more than 4300 digits unless the limit is lifted). Blanks
  around the number are skipped: 0x09-0x0D and 0x20 and, as they are turned into a
  space first, 0x85 and 0xA0, but not 0x1C-0x1F. One sign is allowed, then decimal
  digits, where single underscores may stand between digits.
\<close>

definition is_int_space :: "char \<Rightarrow> bool" where
  "is_int_space c = (c \<in> set [CHR 0x09, CHR 0x0A, CHR 0x0B, CHR 0x0C, CHR 0x0D, CHR 0x20,
                                  CHR 0x85, CHR 0xA0])"

definition is_digit :: "char \<Rightarrow> bool" where
  "is_digit c = (48 \<le> (of_char c :: nat) \<and> (of_char c :: nat) \<le> 57)"

definition digit_val :: "char \<Rightarrow> int" where
  "digit_val c = int (of_char c) - 48"

definition digits_ok :: "string \<Rightarrow> bool" where
  "digits_ok b = (b \<noteq> [] \<and> is_digit (hd b) \<and> is_digit (last b)
                  \<and> list_all (\<lambda>c. is_digit c \<or> c = CHR ''_'') b
                  \<and> \<not> sublist ''__'' b)"

definition digits_value :: "string \<Rightarrow> int" where
  "digits_value b = foldl (\<lambda>n c. 10 * n + digit_val c) 0 (filter is_digit b)"

definition py3_int :: "string \<Rightarrow> int option" where
  "py3_int s =
     (let t = rev (dropWhile is_int_space (rev (dropWhile is_int_space s)));
          neg = (t \<noteq> [] \<and> hd t = CHR ''-'');
          body = (if t \<noteq> [] \<and> (hd t = CHR ''-'' \<or> hd t = CHR ''+'') then tl t else t)
      in if digits_ok body
         then Some (if neg then - digits_value body else digits_value body)
         else None)"

text \<open>
  \<open>float_literal\<close> stands for \<open>float(s)\<close> on plain decimals only: digits with at most
  one point are accepted and kept as their text, every other string is refused, also
  the signed, exponent, blank-padded and special literals that \<open>float\<close> accepts.
\<close>

definition float_literal :: "string \<Rightarrow> string option" where
  "float_literal s =
     (if s \<noteq> [] \<and> list_all (\<lambda>c. is_digit c \<or> c = CHR ''.'') s
         \<and> list_ex is_digit s \<and> length (filter (\<lambda>c. c = CHR ''.'') s) \<le> 1
      then Some s else None)"

section \<open>The cloud-provider classifier\<close>

text \<open>
  Modelled from the spec: the combiner \<open>CloudProvider\<close> (module
  \<open>insights.combiners.cloud_provider\<close>) is not among the sources, only its test module
  is. The data model follows section 3 of the specification, the matchers section 4.1,
  the classifier section 4.2 and the facade section 4.3.
\<close>

datatype provider = Aws | Google | Azure

definition all_providers :: "provider list" where
  "all_providers = [Aws, Google, Azure]"

datatype dmi_field = Vendor | Version | UuidPrefix | AssetTag

definition all_dmi_fields :: "dmi_field list" where
  "all_dmi_fields = [Vendor, Version, UuidPrefix, AssetTag]"

datatype source_category = PackageName | BiosDmi dmi_field | RepositoryName

record hit =
  hit_provider :: provider
  hit_category :: source_category
  matched_value :: string

text \<open>
  The EvidenceIndex: source category to (provider to the matched values, in order).
  The index of a run has every category present; a provider is a key of a category's
  mapping once a value was matched for it.
\<close>

type_synonym evidence_index = "source_category \<rightharpoonup> (provider \<rightharpoonup> string list)"

record verdict =
  cloud_provider :: "provider option"
  evidence :: evidence_index

text \<open>
  The collaborators' outputs (section 6): package names, typed DMI handles with their
  fields, repository identifiers; \<open>None\<close> where a collaborator has no result.
\<close>

record handle =
  handle_kind :: string
  handle_fields :: "(string \<times> string) list"

text \<open>
  Modelled from the spec: the signature table. A DMI field is tested by an exact or
  substring rule; packages and repositories by a case-sensitive substring.
\<close>

datatype rule = Contains string | StartsWith string | Equals string

fun matches :: "rule \<Rightarrow> string \<Rightarrow> bool" where
  "matches (Contains s) v = sublist s v"
| "matches (StartsWith s) v = prefix s v"
| "matches (Equals s) v = (v = s)"

record signatures =
  package_signatures :: "(provider \<times> string) list"
  dmi_signatures :: "(dmi_field \<times> provider \<times> rule) list"
  repo_signatures :: "(provider \<times> string) list"

text \<open>
  Modelled from the spec: the table's entries, which the specification names only by
  example; the values are the ones the test module exercises.
\<close>

definition known_signatures :: signatures where
  "known_signatures =
     \<lparr>package_signatures =
        [(Aws, ''rh-amazon-rhui-client''), (Google, ''google-rhui-client''),
         (Azure, ''WALinuxAgent'')],
      dmi_signatures =
        [(Vendor, Google, Equals ''Google''),
         (Version, Aws, Contains ''amazon''),
         (UuidPrefix, Aws, StartsWith ''EC2''),
         (AssetTag, Azure, Equals ''7783-7084-3265-9085-8269-3286-77'')],
      repo_signatures = [(Azure, ''rhui-microsoft-azure'')]\<rparr>"

subsection \<open>Signal matchers\<close>

text \<open>
  A value is evidence for a provider when it is not empty and one of the provider's
  signatures of the category matches it.
\<close>

definition substring_match :: "(provider \<times> string) list \<Rightarrow> provider \<Rightarrow> string \<Rightarrow> bool" where
  "substring_match sigs p v =
     (v \<noteq> [] \<and> list_ex (\<lambda>e. fst e = p \<and> sublist (snd e) v) sigs)"

definition dmi_match ::
  "(dmi_field \<times> provider \<times> rule) list \<Rightarrow> dmi_field \<Rightarrow> provider \<Rightarrow> string \<Rightarrow> bool" where
  "dmi_match sigs f p v =
     (v \<noteq> [] \<and> list_ex (\<lambda>e. fst e = f \<and> fst (snd e) = p \<and> matches (snd (snd e)) v) sigs)"

text \<open>
  Package and repository matcher: for each provider in turn, every name that carries
  one of its signatures is a hit of its own. An absent list gives no hit.
\<close>

definition name_hits ::
  "source_category \<Rightarrow> (provider \<times> string) list \<Rightarrow> string list \<Rightarrow> hit list" where
  "name_hits c sigs names =
     concat (map (\<lambda>p. map (\<lambda>n. \<lparr>hit_provider = p, hit_category = c, matched_value = n\<rparr>)
                          (filter (substring_match sigs p) names))
                 all_providers)"

definition package_hits :: "signatures \<Rightarrow> string list option \<Rightarrow> hit list" where
  "package_hits t pkgs =
     (case pkgs of None \<Rightarrow> []
      | Some names \<Rightarrow> name_hits PackageName (package_signatures t) names)"

definition repo_hits :: "signatures \<Rightarrow> string list option \<Rightarrow> hit list" where
  "repo_hits t repos =
     (case repos of None \<Rightarrow> []
      | Some names \<Rightarrow> name_hits RepositoryName (repo_signatures t) names)"

text \<open>
  BIOS/DMI matcher: vendor and version come from the BIOS record, the UUID from the
  system record, the asset tag from the chassis record; of several records of a kind
  only the first is read, and a missing record or field gives no hit.
\<close>

fun record_kind :: "dmi_field \<Rightarrow> string" where
  "record_kind Vendor = ''BIOS Information''"
| "record_kind Version = ''BIOS Information''"
| "record_kind UuidPrefix = ''System Information''"
| "record_kind AssetTag = ''Chassis Information''"

fun field_name :: "dmi_field \<Rightarrow> string" where
  "field_name Vendor = ''Vendor''"
| "field_name Version = ''Version''"
| "field_name UuidPrefix = ''UUID''"
| "field_name AssetTag = ''Asset Tag''"

definition dmi_field_value :: "dmi_field \<Rightarrow> handle list \<Rightarrow> string option" where
  "dmi_field_value f handles =
     (case find (\<lambda>h. handle_kind h = record_kind f) handles of
        None \<Rightarrow> None
      | Some h \<Rightarrow> map_of (handle_fields h) (field_name f))"

definition field_hits ::
  "(dmi_field \<times> provider \<times> rule) list \<Rightarrow> handle list \<Rightarrow> dmi_field \<Rightarrow> hit list" where
  "field_hits sigs handles f =
     (case dmi_field_value f handles of
        None \<Rightarrow> []
      | Some v \<Rightarrow>
          map (\<lambda>p. \<lparr>hit_provider = p, hit_category = BiosDmi f, matched_value = v\<rparr>)
              (filter (\<lambda>p. dmi_match sigs f p v) all_providers))"

definition dmi_hits :: "signatures \<Rightarrow> handle list option \<Rightarrow> hit list" where
  "dmi_hits t dmi =
     (case dmi of None \<Rightarrow> []
      | Some handles \<Rightarrow> concat (map (field_hits (dmi_signatures t) handles) all_dmi_fields))"

definition all_hits ::
  "signatures \<Rightarrow> string list option \<Rightarrow> handle list option \<Rightarrow> string list option \<Rightarrow> hit list" where
  "all_hits t pkgs dmi repos = package_hits t pkgs @ dmi_hits t dmi @ repo_hits t repos"

subsection \<open>Classifier and result facade\<close>

definition empty_index :: evidence_index where
  "empty_index = (\<lambda>c. Some Map.empty)"

definition add_hit :: "evidence_index \<Rightarrow> hit \<Rightarrow> evidence_index" where
  "add_hit idx h =
     (let m = (case idx (hit_category h) of None \<Rightarrow> Map.empty | Some m \<Rightarrow> m);
          vs = (case m (hit_provider h) of None \<Rightarrow> [] | Some vs \<Rightarrow> vs)
      in idx(hit_category h \<mapsto> m(hit_provider h \<mapsto> vs @ [matched_value h])))"

definition build_index :: "hit list \<Rightarrow> evidence_index" where
  "build_index hs = foldl add_hit empty_index hs"

definition providers_in_play :: "hit list \<Rightarrow> provider list" where
  "providers_in_play hs = filter (\<lambda>p. list_ex (\<lambda>h. hit_provider h = p) hs) all_providers"

text \<open>
  The precedence of the categories, strongest first. Where the specification leaves the
  choice open, it is fixed here: among vendor, version and UUID the order is the one
  written, and among the providers of one category it is the order of \<open>all_providers\<close>.
\<close>

definition precedence :: "source_category list" where
  "precedence = [BiosDmi Vendor, BiosDmi Version, BiosDmi UuidPrefix, BiosDmi AssetTag,
                 RepositoryName, PackageName]"

definition resolve :: "hit list \<Rightarrow> provider option" where
  "resolve hs =
     (case filter (\<lambda>c. list_ex (\<lambda>h. hit_category h = c) hs) precedence of
        [] \<Rightarrow> None
      | c # cs \<Rightarrow>
          (case filter (\<lambda>p. list_ex (\<lambda>h. hit_category h = c \<and> hit_provider h = p) hs)
                       all_providers of
             [] \<Rightarrow> None
           | p # ps \<Rightarrow> Some p))"

definition select_provider :: "hit list \<Rightarrow> provider option" where
  "select_provider hs =
     (case providers_in_play hs of
        [] \<Rightarrow> None
      | [p] \<Rightarrow> Some p
      | p # q # ps \<Rightarrow> resolve hs)"

definition classify_hits :: "hit list \<Rightarrow> verdict" where
  "classify_hits hs = \<lparr>cloud_provider = select_provider hs, evidence = build_index hs\<rparr>"

definition classify ::
  "signatures \<Rightarrow> string list option \<Rightarrow> handle list option \<Rightarrow> string list option \<Rightarrow> verdict" where
  "classify t pkgs dmi repos = classify_hits (all_hits t pkgs dmi repos)"

text \<open>The facade's query: the matched values of a category for a provider.\<close>

definition matched_values :: "evidence_index \<Rightarrow> source_category \<Rightarrow> provider \<Rightarrow> string list" where
  "matched_values idx c p =
     (case idx c of None \<Rightarrow> []
      | Some m \<Rightarrow> (case m p of None \<Rightarrow> [] | Some vs \<Rightarrow> vs))"

text \<open>
  The four precedence levels of the specification, as a number: vendor, version and
  UUID signals, then the asset tag, then repositories, then package names.
\<close>

fun tier :: "source_category \<Rightarrow> nat" where
  "tier (BiosDmi AssetTag) = 2"
| "tier (BiosDmi f) = 3"
| "tier RepositoryName = 1"
| "tier PackageName = 0"

subsection \<open>The collaborator outputs of the test module\<close>

text \<open>
  The package, repository and DMI data of \<open>test_cloud_provider.py\<close> as the collaborators
  hand them over; of every DMI table the BIOS, system and chassis records are kept.
\<close>

definition RPMS :: "string list" where
  "RPMS = [''gnome-terminal-3.28.2-2.fc28.x86_64'', ''python3-IPy-0.81-21.fc28.noarch'',
           ''gnu-free-serif-fonts-20120503-17.fc28.noarch'']"


definition RPMS_GOOGLE :: "string list" where
  "RPMS_GOOGLE = RPMS @ [''google-rhui-client-5.1.100-1.el7'']"

definition YUM_REPOLIST_NOT_AZURE :: "string list" where
  "YUM_REPOLIST_NOT_AZURE = [''rhel-6-server-rpms'', ''rhel-6-server-satellite-tools-6.3-rpms'']"

definition YUM_REPOLIST_AZURE :: "string list" where
  "YUM_REPOLIST_AZURE = YUM_REPOLIST_NOT_AZURE @ [''rhui-microsoft-azure-rhel7-2.2-74'']"

definition DMIDECODE :: "handle list" where
  "DMIDECODE =
     [\<lparr>handle_kind = ''BIOS Information'',
       handle_fields = [(''Vendor'', ''HP''), (''Version'', ''P70''), (''Release Date'', ''03/01/2013'')]\<rparr>,
      \<lparr>handle_kind = ''System Information'',
       handle_fields = [(''Manufacturer'', ''HP''), (''Product Name'', ''ProLiant DL380p Gen8''),
                 (''Version'', ''Not Specified''), (''Serial Number'', ''2M23360006''),
                 (''UUID'', ''34373936-3439-4D32-3233-333630303036'')]\<rparr>,
      \<lparr>handle_kind = ''chassis information'',
       handle_fields = [(''manufacturer'', ''hp''), (''type'', ''rack mount chassis''),
                 (''asset Tag'', [])]\<rparr>]"

definition DMIDECODE_AWS :: "handle list" where
  "DMIDECODE_AWS =
     [\<lparr>handle_kind = ''BIOS Information'',
       handle_fields = [(''Vendor'', ''Xen''), (''Version'', ''4.2.amazon''),
                 (''Release Date'', ''12/09/2016'')]\<rparr>,
      \<lparr>handle_kind = ''System Information'',
       handle_fields = [(''Manufacturer'', ''Xen''), (''Product Name'', ''HVM domU''),
                 (''Version'', ''4.2.amazon''),
                 (''Serial Number'', ''ec2f58af-2dad-c57e-88c0-a81cb6084290''),
                 (''UUID'', ''EC2F58AF-2DAD-C57E-88C0-A81CB6084290'')]\<rparr>,
      \<lparr>handle_kind = ''Chassis Information'',
       handle_fields = [(''Manufacturer'', ''Xen''), (''Type'', ''Other''),
                 (''Asset Tag'', ''Not Specified'')]\<rparr>]"

definition DMIDECODE_AZURE_ASSET_TAG :: "handle list" where
  "DMIDECODE_AZURE_ASSET_TAG =
     [\<lparr>handle_kind = ''BIOS Information'',
       handle_fields = [(''Vendor'', ''SeaBIOS''), (''Version'', ''1.11.0-2.el7''),
                 (''Release Date'', ''04/01/2014'')]\<rparr>,
      \<lparr>handle_kind = ''System Information'',
       handle_fields = [(''Manufacturer'', ''oVirt''), (''Product Name'', ''oVirt Node''),
                 (''Version'', ''7-5.1804.4.el7.centos''),
                 (''Serial Number'', ''30393137-3436-584D-5136-323830304E46''),
                 (''UUID'', ''a35ae32b-ed0a-49a4-9dbb-eecf21f88aab'')]\<rparr>,
      \<lparr>handle_kind = ''Chassis Information'',
       handle_fields = [(''Manufacturer'', ''Red Hat''), (''Type'', ''Other''),
                 (''Asset Tag'', ''7783-7084-3265-9085-8269-3286-77'')]\<rparr>]"


section \<open>Properties of the flow-table decoder\<close>

text \<open>
  C10: \<open>_decode_port\<close> never raises on a string. It returns the integer when \<open>int\<close>
  accepts the string, and otherwise the string with every double quote removed.
\<close>

theorem decode_port_total:
  "(\<exists>v. (decode_port py_int s :: error + 'f dvalue) = Inr v)
   \<and> (\<forall>n. py_int s = Some n \<longrightarrow> (decode_port py_int s :: error + 'f dvalue) = Inr (VInt n))
   \<and> (py_int s = None \<longrightarrow>
        (decode_port py_int s :: error + 'f dvalue)
          = Inr (VStr (filter (\<lambda>c. c \<noteq> CHR 0x22) s)))"
  by (cases "py_int s") (simp_all add: decode_port_def remove_char_def)

theorem decode_port_total_witness:
  "(decode_port py3_int ''17'' :: error + string dvalue) = Inr (VInt 17)
   \<and> (decode_port py3_int ('' -4_2'' @ [CHR 0xA0]) :: error + string dvalue) = Inr (VInt (- 42))
   \<and> (decode_port py3_int ([CHR 0x22] @ ''s1-eth2'' @ [CHR 0x22]) :: error + string dvalue)
       = Inr (VStr ''s1-eth2'')
   \<and> (decode_port py3_int (CHR 0x1F # ''12'') :: error + string dvalue)
       = Inr (VStr (CHR 0x1F # ''12''))"
proof -
  have a: "py3_int ''17'' = Some 17" by code_simp
  have b: "py3_int ('' -4_2'' @ [CHR 0xA0]) = Some (- 42)" by code_simp
  have c: "py3_int ([CHR 0x22] @ ''s1-eth2'' @ [CHR 0x22]) = None" by code_simp
  have d: "py3_int (CHR 0x1F # ''12'') = None" by code_simp
  show ?thesis
    using a b c d
      decode_port_total [where py_int = py3_int and s = "''17''" and 'f = string]
      decode_port_total [where py_int = py3_int and s = "'' -4_2'' @ [CHR 0xA0]"
        and 'f = string]
      decode_port_total [where py_int = py3_int
        and s = "[CHR 0x22] @ ''s1-eth2'' @ [CHR 0x22]" and 'f = string]
      decode_port_total [where py_int = py3_int and s = "CHR 0x1F # ''12''" and 'f = string]
    by simp
qed

text \<open>
  C9: \<open>_decode_field\<close> coerces a value by its field name through the fixed dictionary:
  \<open>duration\<close> goes to \<open>float\<close> after every \<open>s\<close> is removed, the seven counters go to
  \<open>int\<close>, \<open>in_port\<close> goes to \<open>_decode_port\<close>, and any other name keeps its string.
  Where \<open>float\<close> or \<open>int\<close> raises, the exception leaves \<open>_decode_field\<close>.
\<close>

theorem decode_field_by_name:
  "decode_field pi pf (''duration'', x) =
     (case pf (filter (\<lambda>c. c \<noteq> CHR ''s'') x) of
        None \<Rightarrow> Inl ValueError | Some f \<Rightarrow> Inr (''duration'', VFloat f))
   \<and> (k \<in> set [''table'', ''idle_age'', ''importance'', ''hard_age'', ''priority'',
                 ''n_bytes'', ''n_packets''] \<longrightarrow>
        decode_field pi pf (k, x) =
          (case pi x of None \<Rightarrow> Inl ValueError | Some n \<Rightarrow> Inr (k, VInt n)))
   \<and> decode_field pi pf (''in_port'', x) =
        (case decode_port pi x of Inl e \<Rightarrow> Inl e | Inr v \<Rightarrow> Inr (''in_port'', v))
   \<and> (k \<notin> set [''duration'', ''table'', ''idle_age'', ''importance'', ''hard_age'',
                 ''priority'', ''in_port'', ''n_bytes'', ''n_packets''] \<longrightarrow>
        decode_field pi pf (k, x) = Inr (k, VStr x))"
proof -
  have d: "decode_field pi pf (''duration'', x) =
     (case pf (filter (\<lambda>c. c \<noteq> CHR ''s'') x) of
        None \<Rightarrow> Inl ValueError | Some f \<Rightarrow> Inr (''duration'', VFloat f))"
    by (simp add: decode_field_def field_decoders_def duration_decoder_def remove_char_def
        split: option.splits)
  have i: "decode_field pi pf (k, x) =
          (case pi x of None \<Rightarrow> Inl ValueError | Some n \<Rightarrow> Inr (k, VInt n))"
    if "k \<in> set [''table'', ''idle_age'', ''importance'', ''hard_age'', ''priority'',
                 ''n_bytes'', ''n_packets'']"
    using that
    by (auto simp: decode_field_def field_decoders_def int_decoder_def split: option.splits)
  have p: "decode_field pi pf (''in_port'', x) =
        (case decode_port pi x of Inl e \<Rightarrow> Inl e | Inr v \<Rightarrow> Inr (''in_port'', v))"
    by (simp add: decode_field_def field_decoders_def split: sum.splits)
  have o: "decode_field pi pf (k, x) = Inr (k, VStr x)"
    if "k \<notin> set [''duration'', ''table'', ''idle_age'', ''importance'', ''hard_age'',
                 ''priority'', ''in_port'', ''n_bytes'', ''n_packets'']"
    using that by (simp add: decode_field_def field_decoders_def)
  from d i p o show ?thesis by blast
qed

theorem decode_field_by_name_witness:
  "decode_field py3_int float_literal (''table'', ''0'') = Inr (''table'', VInt 0)
   \<and> decode_field py3_int float_literal (''n_bytes'', CHR 0x1F # ''7'') = Inl ValueError
   \<and> decode_field py3_int float_literal (''cookie'', ''0x0'') = Inr (''cookie'', VStr ''0x0'')
   \<and> decode_field py3_int float_literal (''duration'', ''8.528s'')
       = Inr (''duration'', VFloat ''8.528'')
   \<and> decode_field py3_int float_literal (''in_port'', ''3'') = Inr (''in_port'', VInt 3)"
proof -
  have a: "py3_int ''0'' = Some 0" by code_simp
  have a': "py3_int (CHR 0x1F # ''7'') = None" by code_simp
  have b: "float_literal ''8.528'' = Some ''8.528''" by code_simp
  have c: "(decode_port py3_int ''3'' :: error + string dvalue) = Inr (VInt 3)" by code_simp
  show ?thesis
    using a a' b c
      decode_field_by_name [where pi = py3_int and pf = float_literal
        and k = "''table''" and x = "''0''"]
      decode_field_by_name [where pi = py3_int and pf = float_literal
        and k = "''n_bytes''" and x = "CHR 0x1F # ''7''"]
      decode_field_by_name [where pi = py3_int and pf = float_literal
        and k = "''cookie''" and x = "''0x0''"]
      decode_field_by_name [where pi = py3_int and pf = float_literal
        and k = "''table''" and x = "''8.528s''"]
      decode_field_by_name [where pi = py3_int and pf = float_literal
        and k = "''table''" and x = "''3''"]
    by simp
qed

subsection \<open>The outcome of \<open>parse_content\<close>\<close>

lemma split_from_nonempty: "split_from sep acc s \<noteq> []"
proof (induction sep acc s rule: split_from.induct)
  case (1 sep acc s)
  then show ?case by (subst split_from.simps) auto
qed

text \<open>A split has more than one part exactly when the separator occurs in the string.\<close>

lemma split_from_many:
  "sep \<noteq> [] \<Longrightarrow> 1 < length (split_from sep acc s) \<longleftrightarrow> sublist sep s"
proof (induction sep acc s rule: split_from.induct)
  case (1 sep acc s)
  show ?case
  proof (cases "s = []")
    case True
    with "1.prems" show ?thesis by (subst split_from.simps) simp
  next
    case ne: False
    show ?thesis
    proof (cases "prefix sep s")
      case True
      then have "sublist sep s" by (rule prefix_imp_sublist)
      moreover from ne True "1.prems"
      have "1 < length (split_from sep acc s)"
        by (subst split_from.simps) (simp add: split_from_nonempty)
      ultimately show ?thesis by simp
    next
      case False
      from ne obtain c cs where s: "s = c # cs" by (cases s) auto
      from ne False "1.prems" "1.IH"(2)
      have "1 < length (split_from sep (hd s # acc) (tl s)) \<longleftrightarrow> sublist sep (tl s)" by simp
      moreover from ne False have "split_from sep acc s = split_from sep (hd s # acc) (tl s)"
        by (subst split_from.simps) simp
      moreover from False s have "sublist sep s \<longleftrightarrow> sublist sep (tl s)"
        by (simp add: sublist_Cons_right)
      ultimately show ?thesis by simp
    qed
  qed
qed

lemma extract_bridge_name_None: "extract_bridge_name fp = None \<longleftrightarrow> \<not> path_has_marker fp"
  using split_from_many [of "''ovs-ofctl_dump-flows_''" "[]"]
  by (auto simp: extract_bridge_name_def path_has_marker_def py_split_def Let_def
      split: option.splits)

text \<open>A field coercion raises nothing but \<open>ValueError\<close>.\<close>

lemma decode_field_error: "decode_field pi pf e = Inl err \<Longrightarrow> err = ValueError"
  by (auto simp: decode_field_def field_decoders_def int_decoder_def duration_decoder_def
      decode_port_def split: if_splits option.splits sum.splits)

lemma decode_all_error: "decode_all pi pf es = Inl err \<Longrightarrow> err = ValueError"
  by (induction es) (auto split: sum.splits dest: decode_field_error)

text \<open>
  The loop ends at the first line it does not get past: with \<open>SkipException\<close> when
  that line has not two parts, with \<open>ValueError\<close> when a coercion of it fails; when it
  gets past every line it has collected the flows of the lines.
\<close>

lemma flows_of_Cons:
  "flows_of skv pi pf (l # ls) = line_flow skv pi pf l @ flows_of skv pi pf ls"
  by (simp add: flows_of_def)

lemma first_stop_Cons:
  "first_stop skv pi pf (l # ls) =
     (if line_passes skv pi pf l then first_stop skv pi pf ls else l # ls)"
  by (simp add: first_stop_def)

lemma parse_lines_outcome:
  "parse_lines skv pi pf content acc =
     (case first_stop skv pi pf content of
        [] \<Rightarrow> Inr (acc @ flows_of skv pi pf content)
      | l # rest \<Rightarrow>
          if well_formed l then Inl ValueError else Inl (SkipException ''Invalid Content!''))"
proof (induction content arbitrary: acc)
  case Nil
  then show ?case by (simp add: first_stop_def flows_of_def)
next
  case (Cons l ls)
  note IH = Cons.IH
  show ?case
  proof (cases "is_header l")
    case True
    then show ?thesis
      by (simp add: IH first_stop_Cons flows_of_Cons line_passes_def line_flow_def
          split: list.splits)
  next
    case nh: False
    show ?thesis
    proof (cases "length (py_split ''actions='' l) = 2")
      case False
      with nh show ?thesis
        by (simp add: first_stop_Cons line_passes_def well_formed_def)
    next
      case two: True
      show ?thesis
      proof (cases "decode_all pi pf (line_fields skv l)")
        case (Inl e)
        then have e: "e = ValueError" by (rule decode_all_error)
        from Inl have "line_fields skv l \<noteq> []" by auto
        with nh two Inl e show ?thesis
          by (simp add: first_stop_Cons line_passes_def well_formed_def line_fields_def Let_def)
      next
        case (Inr kvs)
        with nh two show ?thesis
          by (simp add: IH first_stop_Cons flows_of_Cons line_passes_def line_flow_def
              line_fields_def Let_def split: list.splits)
      qed
    qed
  qed
qed

text \<open>
  C8 as stated fails. With a path that lacks the marker, \<open>SkipException\<close> is raised on
  content that the same decoder accepts under a valid path; and a counter that is no
  number makes \<open>int\<close> raise \<open>ValueError\<close> on a line that is well formed and has fields,
  so the call neither raises \<open>SkipException\<close> nor returns.
\<close>

theorem parse_content_skip_counterexample:
  "parse_content kv_pairs_eq py3_int float_literal (Some ''/tmp/dump_flows_br0'')
      [''table=0 actions=drop''] = Inl (SkipException ''Invalid Path!'')
   \<and> parse_content kv_pairs_eq py3_int float_literal (Some ''/tmp/ovs-ofctl_dump-flows_br0'')
      [''table=0 actions=drop'']
       = Inr \<lparr>bridge_name = ''br0'',
              flow_dumps = [[(''table'', VInt 0), (''actions'', VStr ''drop'')]]\<rparr>
   \<and> parse_content kv_pairs_eq py3_int float_literal (Some ''/tmp/ovs-ofctl_dump-flows_br0'')
      [''table=x actions=drop''] = Inl ValueError
   \<and> \<not> is_header ''table=x actions=drop''
   \<and> length (py_split ''actions='' ''table=x actions=drop'') = 2
   \<and> line_fields kv_pairs_eq ''table=x actions=drop'' = [(''table'', ''x'')]"
  by code_simp

text \<open>
  C8, amended: \<open>parse_content\<close> raises \<open>SkipException\<close> exactly when the content is
  empty, or the file path does not contain \<open>ovs-ofctl_dump-flows_\<close>, or the first line
  the loop does not get past is a line that is no header and does not split on
  \<open>actions=\<close> into exactly two parts, or the loop gets past every line and no flow
  record was produced. When the first line the loop does not get past is a two-part
  line with a failing field coercion, the \<open>ValueError\<close> of the coercion leaves
  \<open>parse_content\<close>. In every other case it returns the bridge name and the flows of
  the lines, in order.
\<close>

theorem parse_content_skip:
  "((\<exists>m. parse_content skv pi pf fp content = Inl (SkipException m)) \<longleftrightarrow>
      (content = [] \<or> \<not> path_has_marker fp
       \<or> (case first_stop skv pi pf content of
             [] \<Rightarrow> flows_of skv pi pf content = []
           | l # rest \<Rightarrow> \<not> well_formed l)))
   \<and> (parse_content skv pi pf fp content = Inl ValueError \<longleftrightarrow>
        (content \<noteq> [] \<and> path_has_marker fp
         \<and> (case first_stop skv pi pf content of [] \<Rightarrow> False | l # rest \<Rightarrow> well_formed l)))
   \<and> (content \<noteq> [] \<and> path_has_marker fp \<and> first_stop skv pi pf content = []
        \<and> flows_of skv pi pf content \<noteq> [] \<longrightarrow>
        (\<exists>b. extract_bridge_name fp = Some b
           \<and> parse_content skv pi pf fp content =
               Inr \<lparr>bridge_name = b, flow_dumps = flows_of skv pi pf content\<rparr>))"
proof (cases "content = []")
  case True
  then show ?thesis by (simp add: parse_content_def)
next
  case ne: False
  show ?thesis
  proof (cases "extract_bridge_name fp")
    case None
    then have "\<not> path_has_marker fp" by (simp add: extract_bridge_name_None)
    with ne None show ?thesis by (simp add: parse_content_def)
  next
    case (Some b)
    then have pm: "path_has_marker fp" using extract_bridge_name_None [of fp] by simp
    show ?thesis
    proof (cases "first_stop skv pi pf content")
      case Nil
      with ne pm Some parse_lines_outcome [of skv pi pf content "[]"] show ?thesis
        by (simp add: parse_content_def)
    next
      case (Cons l rest)
      with ne pm Some parse_lines_outcome [of skv pi pf content "[]"] show ?thesis
        by (simp add: parse_content_def)
    qed
  qed
qed

theorem parse_content_skip_witness:
  "parse_content kv_pairs_eq py3_int float_literal (Some ''/tmp/ovs-ofctl_dump-flows_br0'')
      [''NXST_FLOW reply (xid=0x4):'',
       '' cookie=0x0, duration=8.528s, table=0, n_packets=0,arp,in_port=1 actions=output:2'']
     = Inr \<lparr>bridge_name = ''br0'',
            flow_dumps = [[(''cookie'', VStr ''0x0''), (''duration'', VFloat ''8.528''),
                           (''table'', VInt 0), (''n_packets'', VInt 0),
                           (''in_port'', VInt 1), (''actions'', VStr ''output:2'')]]\<rparr>
   \<and> (\<exists>m. parse_content kv_pairs_eq py3_int float_literal
             (Some ''/tmp/ovs-ofctl_dump-flows_br0'') [''garbage'', ''table=x actions=drop'']
           = Inl (SkipException m))
   \<and> (\<exists>m. parse_content kv_pairs_eq py3_int float_literal
             (Some ''/tmp/dump_flows_br0'') [''table=x actions=drop'']
           = Inl (SkipException m))
   \<and> parse_content kv_pairs_eq py3_int float_literal
        (Some ''/tmp/ovs-ofctl_dump-flows_br0'') [''table=x actions=drop'', ''garbage'']
       = Inl ValueError"
proof -
  let ?p = "Some ''/tmp/ovs-ofctl_dump-flows_br0''"
  let ?c = "[''NXST_FLOW reply (xid=0x4):'',
       '' cookie=0x0, duration=8.528s, table=0, n_packets=0,arp,in_port=1 actions=output:2'']"
  have m: "path_has_marker ?p" by code_simp
  have b: "extract_bridge_name ?p = Some ''br0''" by code_simp
  have s1: "first_stop kv_pairs_eq py3_int float_literal ?c = []" by code_simp
  have f1: "flows_of kv_pairs_eq py3_int float_literal ?c =
     [[(''cookie'', VStr ''0x0''), (''duration'', VFloat ''8.528''),
       (''table'', VInt 0), (''n_packets'', VInt 0),
       (''in_port'', VInt 1), (''actions'', VStr ''output:2'')]]" by code_simp
  have r1: "parse_content kv_pairs_eq py3_int float_literal ?p ?c
     = Inr \<lparr>bridge_name = ''br0'',
            flow_dumps = [[(''cookie'', VStr ''0x0''), (''duration'', VFloat ''8.528''),
                           (''table'', VInt 0), (''n_packets'', VInt 0),
                           (''in_port'', VInt 1), (''actions'', VStr ''output:2'')]]\<rparr>"
    using m b s1 f1 parse_content_skip [of kv_pairs_eq py3_int float_literal ?p ?c]
    by simp
  have s2: "first_stop kv_pairs_eq py3_int float_literal [''garbage'', ''table=x actions=drop'']
              = [''garbage'', ''table=x actions=drop'']" by code_simp
  have w2: "\<not> well_formed ''garbage''" by code_simp
  have r2: "\<exists>m. parse_content kv_pairs_eq py3_int float_literal ?p
                  [''garbage'', ''table=x actions=drop''] = Inl (SkipException m)"
    using s2 w2 parse_content_skip [of kv_pairs_eq py3_int float_literal ?p
        "[''garbage'', ''table=x actions=drop'']"]
    by simp
  have m3: "\<not> path_has_marker (Some ''/tmp/dump_flows_br0'')" by code_simp
  have r3: "\<exists>m. parse_content kv_pairs_eq py3_int float_literal (Some ''/tmp/dump_flows_br0'')
                  [''table=x actions=drop''] = Inl (SkipException m)"
    using m3 parse_content_skip [of kv_pairs_eq py3_int float_literal
        "Some ''/tmp/dump_flows_br0''" "[''table=x actions=drop'']"]
    by simp
  have s4: "first_stop kv_pairs_eq py3_int float_literal [''table=x actions=drop'', ''garbage'']
              = [''table=x actions=drop'', ''garbage'']" by code_simp
  have w4: "well_formed ''table=x actions=drop''" by code_simp
  have r4: "parse_content kv_pairs_eq py3_int float_literal ?p
              [''table=x actions=drop'', ''garbage''] = Inl ValueError"
    using m s4 w4 parse_content_skip [of kv_pairs_eq py3_int float_literal ?p
        "[''table=x actions=drop'', ''garbage'']"]
    by simp
  from r1 r2 r3 r4 show ?thesis by blast
qed

section \<open>Properties of the cloud-provider classifier\<close>

subsection \<open>The evidence index\<close>

lemma build_index_snoc: "build_index (hs @ [h]) = add_hit (build_index hs) h"
  by (simp add: build_index_def)

lemma build_index_char:
  "build_index hs c =
     Some (\<lambda>p. case map matched_value
                       (filter (\<lambda>h. hit_category h = c \<and> hit_provider h = p) hs) of
                  [] \<Rightarrow> None | v # vs \<Rightarrow> Some (v # vs))"
proof (induction hs arbitrary: c rule: rev_induct)
  case Nil
  then show ?case by (simp add: build_index_def empty_index_def)
next
  case (snoc h hs)
  show ?case
    by (auto simp: build_index_snoc add_hit_def Let_def snoc.IH fun_eq_iff split: list.splits)
qed

lemma matched_values_build:
  "matched_values (build_index hs) c p =
     map matched_value (filter (\<lambda>h. hit_category h = c \<and> hit_provider h = p) hs)"
  by (simp add: matched_values_def build_index_char split: list.splits)

subsection \<open>The categories of the matchers' hits\<close>

lemma name_hits_category: "h \<in> set (name_hits c sigs names) \<Longrightarrow> hit_category h = c"
  by (auto simp: name_hits_def)

lemma package_hits_category: "h \<in> set (package_hits t pkgs) \<Longrightarrow> hit_category h = PackageName"
  by (auto simp: package_hits_def split: option.splits dest: name_hits_category)

lemma repo_hits_category: "h \<in> set (repo_hits t repos) \<Longrightarrow> hit_category h = RepositoryName"
  by (auto simp: repo_hits_def split: option.splits dest: name_hits_category)

lemma field_hits_category: "h \<in> set (field_hits sigs handles f) \<Longrightarrow> hit_category h = BiosDmi f"
  by (auto simp: field_hits_def split: option.splits)

lemma dmi_hits_category: "h \<in> set (dmi_hits t dmi) \<Longrightarrow> \<exists>f. hit_category h = BiosDmi f"
  by (auto simp: dmi_hits_def split: option.splits dest: field_hits_category)

subsection \<open>Selection\<close>

lemma all_providers_complete: "p \<in> set all_providers"
  by (cases p) (simp_all add: all_providers_def)

lemma precedence_complete: "c \<in> set precedence"
proof (cases c)
  case (BiosDmi f)
  then show ?thesis by (cases f) (simp_all add: precedence_def)
qed (simp_all add: precedence_def)

lemma precedence_sorted: "sorted_wrt (\<lambda>a b. tier b \<le> tier a) precedence"
  by (simp add: precedence_def)

lemma in_play_iff: "p \<in> set (providers_in_play hs) \<longleftrightarrow> (\<exists>h\<in>set hs. hit_provider h = p)"
  by (auto simp: providers_in_play_def list_ex_iff all_providers_complete)

text \<open>
  The provider that \<open>resolve\<close> picks has a hit in a category that no other hit's
  category outranks.
\<close>

lemma resolve_some:
  assumes "hs \<noteq> []"
  shows "\<exists>h\<in>set hs. resolve hs = Some (hit_provider h)
           \<and> (\<forall>h'\<in>set hs. tier (hit_category h') \<le> tier (hit_category h))"
proof -
  let ?P = "\<lambda>c. list_ex (\<lambda>h. hit_category h = c) hs"
  from assms obtain h0 where h0: "h0 \<in> set hs" by (cases hs) auto
  then have "?P (hit_category h0)" by (auto simp: list_ex_iff)
  then have "filter ?P precedence \<noteq> []"
    using precedence_complete [of "hit_category h0"] by (auto simp: filter_empty_conv)
  then obtain c cs where ccs: "filter ?P precedence = c # cs" by (cases "filter ?P precedence") auto
  then obtain us vs where split: "precedence = us @ c # vs" and us: "\<forall>u\<in>set us. \<not> ?P u"
    and Pc: "?P c"
    by (auto simp: filter_eq_Cons_iff)
  have top: "tier (hit_category h') \<le> tier c" if "h' \<in> set hs" for h'
  proof -
    from that have P': "?P (hit_category h')" by (auto simp: list_ex_iff)
    with us have "hit_category h' \<notin> set us" by blast
    moreover have "hit_category h' \<in> set (us @ c # vs)"
      using precedence_complete [of "hit_category h'"] by (simp only: split)
    ultimately have "hit_category h' = c \<or> hit_category h' \<in> set vs" by auto
    moreover have "sorted_wrt (\<lambda>a b. tier b \<le> tier a) (us @ c # vs)"
      using precedence_sorted by (simp only: split)
    then have "\<forall>v\<in>set vs. tier v \<le> tier c"
      by (simp add: sorted_wrt_append)
    ultimately show ?thesis by auto
  qed
  let ?Q = "\<lambda>p. list_ex (\<lambda>h. hit_category h = c \<and> hit_provider h = p) hs"
  from Pc obtain h1 where h1: "h1 \<in> set hs" "hit_category h1 = c" by (auto simp: list_ex_iff)
  then have "?Q (hit_provider h1)" by (auto simp: list_ex_iff)
  then have "filter ?Q all_providers \<noteq> []"
    using all_providers_complete [of "hit_provider h1"] by (auto simp: filter_empty_conv)
  then obtain p ps where pps: "filter ?Q all_providers = p # ps"
    by (cases "filter ?Q all_providers") auto
  then have "?Q p" by (auto simp: filter_eq_Cons_iff)
  then obtain h where h: "h \<in> set hs" "hit_category h = c" "hit_provider h = p"
    by (auto simp: list_ex_iff)
  from ccs pps have "resolve hs = Some p" by (simp add: resolve_def)
  with h top show ?thesis by auto
qed

lemma in_play_single:
  assumes "providers_in_play hs = [p]" and "h \<in> set hs"
  shows "hit_provider h = p"
proof -
  from assms(2) have "hit_provider h \<in> set (providers_in_play hs)" by (auto simp: in_play_iff)
  with assms(1) show ?thesis by simp
qed

lemma select_is_resolve:
  assumes "hs \<noteq> []"
  shows "select_provider hs = resolve hs"
proof -
  from resolve_some [OF assms] obtain h where h: "h \<in> set hs" "resolve hs = Some (hit_provider h)"
    by blast
  show ?thesis
  proof (cases "providers_in_play hs")
    case Nil
    with h(1) in_play_iff [of "hit_provider h" hs] show ?thesis by auto
  next
    case (Cons p ps)
    show ?thesis
    proof (cases ps)
      case Nil
      with Cons h in_play_single [of hs p h] show ?thesis by (simp add: select_provider_def)
    next
      case (Cons q qs)
      with \<open>providers_in_play hs = p # ps\<close> show ?thesis by (simp add: select_provider_def)
    qed
  qed
qed


subsection \<open>The claims about the verdict\<close>

text \<open>
  C1: when hits exist for several providers, the verdict is the provider of a hit whose
  category no other hit outranks in the order vendor, version and UUID over asset tag
  over repository over package name. With a BIOS version hit \<open>4.2.amazon\<close> for aws, a
  repository hit for azure and no package hit, the verdict is aws; so it is on the data
  of \<open>test__bios_version_aws\<close>, where the version evidence for aws is that value.
\<close>

theorem precedence_resolves_conflict:
  "((\<exists>h1\<in>set hs. \<exists>h2\<in>set hs. hit_provider h1 \<noteq> hit_provider h2) \<longrightarrow>
      (\<exists>h\<in>set hs. cloud_provider (classify_hits hs) = Some (hit_provider h)
         \<and> (\<forall>h'\<in>set hs. tier (hit_category h') \<le> tier (hit_category h))))
   \<and> tier (BiosDmi AssetTag) < tier (BiosDmi Vendor)
   \<and> tier (BiosDmi AssetTag) < tier (BiosDmi Version)
   \<and> tier (BiosDmi AssetTag) < tier (BiosDmi UuidPrefix)
   \<and> tier RepositoryName < tier (BiosDmi AssetTag)
   \<and> tier PackageName < tier RepositoryName
   \<and> cloud_provider (classify_hits
        [\<lparr>hit_provider = Aws, hit_category = BiosDmi Version, matched_value = ''4.2.amazon''\<rparr>,
         \<lparr>hit_provider = Azure, hit_category = RepositoryName,
          matched_value = ''rhui-microsoft-azure-rhel7-2.2-74''\<rparr>]) = Some Aws
   \<and> cloud_provider (classify known_signatures (Some RPMS) (Some DMIDECODE_AWS)
        (Some YUM_REPOLIST_AZURE)) = Some Aws
   \<and> matched_values (evidence (classify known_signatures (Some RPMS) (Some DMIDECODE_AWS)
        (Some YUM_REPOLIST_AZURE))) (BiosDmi Version) Aws = [''4.2.amazon'']"
proof -
  have general: "\<exists>h\<in>set hs. cloud_provider (classify_hits hs) = Some (hit_provider h)
         \<and> (\<forall>h'\<in>set hs. tier (hit_category h') \<le> tier (hit_category h))"
    if "\<exists>h1\<in>set hs. \<exists>h2\<in>set hs. hit_provider h1 \<noteq> hit_provider h2"
  proof -
    from that have ne: "hs \<noteq> []" by auto
    from resolve_some [OF ne] select_is_resolve [OF ne] show ?thesis
      by (simp add: classify_hits_def)
  qed
  have two: "cloud_provider (classify_hits
        [\<lparr>hit_provider = Aws, hit_category = BiosDmi Version, matched_value = ''4.2.amazon''\<rparr>,
         \<lparr>hit_provider = Azure, hit_category = RepositoryName,
          matched_value = ''rhui-microsoft-azure-rhel7-2.2-74''\<rparr>]) = Some Aws"
    by code_simp
  have run: "cloud_provider (classify known_signatures (Some RPMS) (Some DMIDECODE_AWS)
        (Some YUM_REPOLIST_AZURE)) = Some Aws"
    by code_simp
  have ev: "matched_values (evidence (classify known_signatures (Some RPMS) (Some DMIDECODE_AWS)
        (Some YUM_REPOLIST_AZURE))) (BiosDmi Version) Aws = [''4.2.amazon'']"
    by code_simp
  from general two run ev show ?thesis by simp
qed

theorem precedence_resolves_conflict_witness:
  "(\<exists>h1\<in>set (all_hits known_signatures (Some RPMS_GOOGLE) (Some DMIDECODE_AZURE_ASSET_TAG)
                (Some YUM_REPOLIST_AZURE)).
    \<exists>h2\<in>set (all_hits known_signatures (Some RPMS_GOOGLE) (Some DMIDECODE_AZURE_ASSET_TAG)
                (Some YUM_REPOLIST_AZURE)). hit_provider h1 \<noteq> hit_provider h2)
   \<and> (\<exists>h\<in>set (all_hits known_signatures (Some RPMS_GOOGLE) (Some DMIDECODE_AZURE_ASSET_TAG)
                (Some YUM_REPOLIST_AZURE)).
        cloud_provider (classify known_signatures (Some RPMS_GOOGLE)
           (Some DMIDECODE_AZURE_ASSET_TAG) (Some YUM_REPOLIST_AZURE)) = Some (hit_provider h)
        \<and> (\<forall>h'\<in>set (all_hits known_signatures (Some RPMS_GOOGLE)
                (Some DMIDECODE_AZURE_ASSET_TAG) (Some YUM_REPOLIST_AZURE)).
              tier (hit_category h') \<le> tier (hit_category h)))"
proof -
  let ?hs = "all_hits known_signatures (Some RPMS_GOOGLE) (Some DMIDECODE_AZURE_ASSET_TAG)
                (Some YUM_REPOLIST_AZURE)"
  have hs: "?hs =
     [\<lparr>hit_provider = Google, hit_category = PackageName,
       matched_value = ''google-rhui-client-5.1.100-1.el7''\<rparr>,
      \<lparr>hit_provider = Azure, hit_category = BiosDmi AssetTag,
       matched_value = ''7783-7084-3265-9085-8269-3286-77''\<rparr>,
      \<lparr>hit_provider = Azure, hit_category = RepositoryName,
       matched_value = ''rhui-microsoft-azure-rhel7-2.2-74''\<rparr>]"
    by code_simp
  let ?g = "\<lparr>hit_provider = Google, hit_category = PackageName,
       matched_value = ''google-rhui-client-5.1.100-1.el7''\<rparr>"
  let ?a = "\<lparr>hit_provider = Azure, hit_category = BiosDmi AssetTag,
       matched_value = ''7783-7084-3265-9085-8269-3286-77''\<rparr>"
  have "?g \<in> set ?hs" and "?a \<in> set ?hs" and "hit_provider ?g \<noteq> hit_provider ?a"
    unfolding hs by simp_all
  then have two: "\<exists>h1\<in>set ?hs. \<exists>h2\<in>set ?hs. hit_provider h1 \<noteq> hit_provider h2"
    by blast
  from two precedence_resolves_conflict [of ?hs] show ?thesis
    unfolding classify_def by blast
qed

text \<open>
  C2: an input without any hit in the three categories has the verdict \<open>none\<close>, and
  its evidence index has every category present with an empty mapping.
\<close>

theorem no_hits_none:
  assumes "package_hits t pkgs = []" and "dmi_hits t dmi = []" and "repo_hits t repos = []"
  shows "cloud_provider (classify t pkgs dmi repos) = None
         \<and> (\<forall>c. evidence (classify t pkgs dmi repos) c = Some Map.empty)"
  using assms
  by (simp add: classify_def classify_hits_def all_hits_def select_provider_def
      providers_in_play_def all_providers_def build_index_def empty_index_def)

theorem no_hits_none_witness:
  "package_hits known_signatures (Some RPMS) = []
   \<and> dmi_hits known_signatures (Some DMIDECODE) = []
   \<and> repo_hits known_signatures (Some YUM_REPOLIST_NOT_AZURE) = []
   \<and> cloud_provider (classify known_signatures (Some RPMS) (Some DMIDECODE)
        (Some YUM_REPOLIST_NOT_AZURE)) = None
   \<and> (\<forall>c. evidence (classify known_signatures (Some RPMS) (Some DMIDECODE)
        (Some YUM_REPOLIST_NOT_AZURE)) c = Some Map.empty)"
proof -
  have p: "package_hits known_signatures (Some RPMS) = []" by code_simp
  have d: "dmi_hits known_signatures (Some DMIDECODE) = []" by code_simp
  have r: "repo_hits known_signatures (Some YUM_REPOLIST_NOT_AZURE) = []" by code_simp
  from p d r no_hits_none [OF p d r] show ?thesis by simp
qed



subsection \<open>The evidence of each matcher\<close>

lemma filter_package_hits:
  "filter (\<lambda>h. hit_category h = c \<and> hit_provider h = p) (package_hits t pkgs) =
     (if c = PackageName then filter (\<lambda>h. hit_provider h = p) (package_hits t pkgs) else [])"
  by (auto simp: filter_empty_conv dest: package_hits_category intro: filter_cong)

lemma filter_repo_hits:
  "filter (\<lambda>h. hit_category h = c \<and> hit_provider h = p) (repo_hits t repos) =
     (if c = RepositoryName then filter (\<lambda>h. hit_provider h = p) (repo_hits t repos) else [])"
  by (auto simp: filter_empty_conv dest: repo_hits_category intro: filter_cong)

lemma filter_dmi_hits:
  "filter (\<lambda>h. hit_category h = PackageName \<and> hit_provider h = p) (dmi_hits t dmi) = []"
  "filter (\<lambda>h. hit_category h = RepositoryName \<and> hit_provider h = p) (dmi_hits t dmi) = []"
  by (auto simp: filter_empty_conv dest: dmi_hits_category)

text \<open>
  What the index of a run holds for a category and a provider are the values of that
  category's matcher for the provider, in the matcher's order.
\<close>

lemma evidence_by_matcher:
  "matched_values (evidence (classify t pkgs dmi repos)) c p =
     (case c of
        PackageName \<Rightarrow>
          map matched_value (filter (\<lambda>h. hit_provider h = p) (package_hits t pkgs))
      | BiosDmi f \<Rightarrow>
          map matched_value
            (filter (\<lambda>h. hit_category h = BiosDmi f \<and> hit_provider h = p) (dmi_hits t dmi))
      | RepositoryName \<Rightarrow>
          map matched_value (filter (\<lambda>h. hit_provider h = p) (repo_hits t repos)))"
  by (cases c)
    (simp_all add: classify_def classify_hits_def matched_values_build all_hits_def
      filter_package_hits filter_repo_hits filter_dmi_hits)

lemma name_hits_values:
  "map matched_value (filter (\<lambda>h. hit_provider h = p) (name_hits c sigs names)) =
     filter (substring_match sigs p) names"
  by (cases p) (simp_all add: name_hits_def all_providers_def filter_map o_def)

lemma field_hits_filter:
  "filter (\<lambda>h. hit_category h = BiosDmi f \<and> hit_provider h = p) (field_hits sigs handles g) =
     (if g = f then filter (\<lambda>h. hit_provider h = p) (field_hits sigs handles f) else [])"
  by (auto simp: filter_empty_conv dest: field_hits_category intro: filter_cong)

lemma field_hits_values:
  "map matched_value (filter (\<lambda>h. hit_provider h = p) (field_hits sigs handles f)) =
     (case dmi_field_value f handles of
        None \<Rightarrow> []
      | Some v \<Rightarrow> if dmi_match sigs f p v then [v] else [])"
  by (cases p)
    (simp_all add: field_hits_def all_providers_def filter_map o_def split: option.splits)

lemma dmi_hits_values:
  "map matched_value
     (filter (\<lambda>h. hit_category h = BiosDmi f \<and> hit_provider h = p) (dmi_hits t (Some handles))) =
     (case dmi_field_value f handles of
        None \<Rightarrow> []
      | Some v \<Rightarrow> if dmi_match (dmi_signatures t) f p v then [v] else [])"
  by (cases f)
    (simp_all add: dmi_hits_def all_dmi_fields_def field_hits_filter field_hits_values
      split: option.splits)


text \<open>
  C7: the evidence index of the verdict holds every hit of every matcher: the value
  of each hit of the package, the DMI and the repository matcher is among the matched
  values of the hit's category and provider. For every category and provider the index
  holds exactly the values of that matcher's hits, in order, which are the names and
  field values of the input that carry a signature of the provider; the provider that
  wins plays no part in it.
\<close>

theorem evidence_keeps_all_hits:
  "(\<forall>h\<in>set (package_hits t pkgs) \<union> set (dmi_hits t dmi) \<union> set (repo_hits t repos).
      matched_value h \<in> set (matched_values (evidence (classify t pkgs dmi repos))
                                (hit_category h) (hit_provider h)))
   \<and> matched_values (evidence (classify t pkgs dmi repos)) PackageName p =
       map matched_value (filter (\<lambda>h. hit_provider h = p) (package_hits t pkgs))
   \<and> matched_values (evidence (classify t pkgs dmi repos)) (BiosDmi f) p =
       map matched_value
         (filter (\<lambda>h. hit_category h = BiosDmi f \<and> hit_provider h = p) (dmi_hits t dmi))
   \<and> matched_values (evidence (classify t pkgs dmi repos)) RepositoryName p =
       map matched_value (filter (\<lambda>h. hit_provider h = p) (repo_hits t repos))
   \<and> matched_values (evidence (classify t (Some names) dmi repos)) PackageName p =
       filter (substring_match (package_signatures t) p) names
   \<and> matched_values (evidence (classify t pkgs (Some handles) repos)) (BiosDmi f) p =
       (case dmi_field_value f handles of
          None \<Rightarrow> []
        | Some v \<Rightarrow> if dmi_match (dmi_signatures t) f p v then [v] else [])
   \<and> matched_values (evidence (classify t pkgs dmi (Some ids))) RepositoryName p =
       filter (substring_match (repo_signatures t) p) ids"
proof -
  let ?ev = "matched_values (evidence (classify t pkgs dmi repos))"
  have P: "matched_value h \<in> set (?ev (hit_category h) (hit_provider h))"
    if "h \<in> set (package_hits t pkgs)" for h
    using that package_hits_category [OF that] by (simp add: evidence_by_matcher)
  have R: "matched_value h \<in> set (?ev (hit_category h) (hit_provider h))"
    if "h \<in> set (repo_hits t repos)" for h
    using that repo_hits_category [OF that] by (simp add: evidence_by_matcher)
  have D: "matched_value h \<in> set (?ev (hit_category h) (hit_provider h))"
    if "h \<in> set (dmi_hits t dmi)" for h
  proof -
    from dmi_hits_category [OF that] obtain g where "hit_category h = BiosDmi g" by blast
    with that show ?thesis by (simp add: evidence_by_matcher)
  qed
  have all: "\<forall>h\<in>set (package_hits t pkgs) \<union> set (dmi_hits t dmi) \<union> set (repo_hits t repos).
      matched_value h \<in> set (?ev (hit_category h) (hit_provider h))"
    using P D R by blast
  have names: "matched_values (evidence (classify t (Some names) dmi repos)) PackageName p =
       filter (substring_match (package_signatures t) p) names"
    by (simp add: evidence_by_matcher package_hits_def name_hits_values)
  have ids: "matched_values (evidence (classify t pkgs dmi (Some ids))) RepositoryName p =
       filter (substring_match (repo_signatures t) p) ids"
    by (simp add: evidence_by_matcher repo_hits_def name_hits_values)
  have flds: "matched_values (evidence (classify t pkgs (Some handles) repos)) (BiosDmi f) p =
       (case dmi_field_value f handles of
          None \<Rightarrow> []
        | Some v \<Rightarrow> if dmi_match (dmi_signatures t) f p v then [v] else [])"
    by (simp add: evidence_by_matcher dmi_hits_values)
  from all names ids flds show ?thesis by (simp add: evidence_by_matcher)
qed

theorem evidence_keeps_all_hits_witness:
  "package_hits known_signatures (Some RPMS_GOOGLE) =
     [\<lparr>hit_provider = Google, hit_category = PackageName,
       matched_value = ''google-rhui-client-5.1.100-1.el7''\<rparr>]
   \<and> ''google-rhui-client-5.1.100-1.el7''
     \<in> set (matched_values (evidence (classify known_signatures (Some RPMS_GOOGLE)
               (Some DMIDECODE_AWS) (Some YUM_REPOLIST_AZURE))) PackageName Google)
   \<and> matched_values (evidence (classify known_signatures (Some RPMS_GOOGLE)
        (Some DMIDECODE_AWS) (Some YUM_REPOLIST_AZURE))) RepositoryName Azure
       = [''rhui-microsoft-azure-rhel7-2.2-74'']
   \<and> matched_values (evidence (classify known_signatures (Some RPMS_GOOGLE)
        (Some DMIDECODE_AWS) (Some YUM_REPOLIST_AZURE))) (BiosDmi Version) Aws
       = [''4.2.amazon'']
   \<and> cloud_provider (classify known_signatures (Some RPMS_GOOGLE) (Some DMIDECODE_AWS)
        (Some YUM_REPOLIST_AZURE)) = Some Aws"
proof -
  let ?g = "\<lparr>hit_provider = Google, hit_category = PackageName,
       matched_value = ''google-rhui-client-5.1.100-1.el7''\<rparr>"
  note inst = evidence_keeps_all_hits [where t = known_signatures
      and pkgs = "Some RPMS_GOOGLE" and dmi = "Some DMIDECODE_AWS"
      and repos = "Some YUM_REPOLIST_AZURE" and f = Version and names = RPMS_GOOGLE
      and handles = DMIDECODE_AWS and ids = YUM_REPOLIST_AZURE]
  have p: "package_hits known_signatures (Some RPMS_GOOGLE) = [?g]" by code_simp
  then have m: "?g \<in> set (package_hits known_signatures (Some RPMS_GOOGLE))
                  \<union> set (dmi_hits known_signatures (Some DMIDECODE_AWS))
                  \<union> set (repo_hits known_signatures (Some YUM_REPOLIST_AZURE))"
    by simp
  from inst [where p = Google] have
    "\<forall>h\<in>set (package_hits known_signatures (Some RPMS_GOOGLE))
          \<union> set (dmi_hits known_signatures (Some DMIDECODE_AWS))
          \<union> set (repo_hits known_signatures (Some YUM_REPOLIST_AZURE)).
      matched_value h \<in> set (matched_values (evidence (classify known_signatures
          (Some RPMS_GOOGLE) (Some DMIDECODE_AWS) (Some YUM_REPOLIST_AZURE)))
          (hit_category h) (hit_provider h))"
    by blast
  from this [rule_format, OF m] have g: "''google-rhui-client-5.1.100-1.el7''
     \<in> set (matched_values (evidence (classify known_signatures (Some RPMS_GOOGLE)
               (Some DMIDECODE_AWS) (Some YUM_REPOLIST_AZURE))) PackageName Google)"
    by simp
  have rf: "filter (substring_match (repo_signatures known_signatures) Azure) YUM_REPOLIST_AZURE
              = [''rhui-microsoft-azure-rhel7-2.2-74'']" by code_simp
  have r: "matched_values (evidence (classify known_signatures (Some RPMS_GOOGLE)
        (Some DMIDECODE_AWS) (Some YUM_REPOLIST_AZURE))) RepositoryName Azure
       = [''rhui-microsoft-azure-rhel7-2.2-74'']"
  proof -
    from inst [where p = Azure]
    have "matched_values (evidence (classify known_signatures (Some RPMS_GOOGLE)
        (Some DMIDECODE_AWS) (Some YUM_REPOLIST_AZURE))) RepositoryName Azure
       = filter (substring_match (repo_signatures known_signatures) Azure) YUM_REPOLIST_AZURE"
      by blast
    with rf show ?thesis by simp
  qed
  have vf: "dmi_field_value Version DMIDECODE_AWS = Some ''4.2.amazon''" by code_simp
  have vm: "dmi_match (dmi_signatures known_signatures) Version Aws ''4.2.amazon''"
    by code_simp
  have v: "matched_values (evidence (classify known_signatures (Some RPMS_GOOGLE)
        (Some DMIDECODE_AWS) (Some YUM_REPOLIST_AZURE))) (BiosDmi Version) Aws
       = [''4.2.amazon'']"
  proof -
    from inst [where p = Aws]
    have "matched_values (evidence (classify known_signatures (Some RPMS_GOOGLE)
        (Some DMIDECODE_AWS) (Some YUM_REPOLIST_AZURE))) (BiosDmi Version) Aws
       = (case dmi_field_value Version DMIDECODE_AWS of
            None \<Rightarrow> []
          | Some v \<Rightarrow>
              if dmi_match (dmi_signatures known_signatures) Version Aws v then [v] else [])"
      by blast
    with vf vm show ?thesis by simp
  qed
  have w: "cloud_provider (classify known_signatures (Some RPMS_GOOGLE) (Some DMIDECODE_AWS)
        (Some YUM_REPOLIST_AZURE)) = Some Aws"
    by code_simp
  from p g r v w show ?thesis by blast
qed

subsection \<open>Absent collaborators\<close>




subsection \<open>The asset-tag sentinel\<close>




end
